theory Spec2Isabelle
  imports Main "HOL-Library.Sublist"
begin

section \<open>Severity levels (levels.go)\<close>

text \<open>
  \<^verbatim>\<open>type Level int\<close>. The only arithmetic the package does on a level is the
  increment of the loop in \<^verbatim>\<open>ParseLogLevel\<close>, which runs from 1 to 7, so no
  machine integer can wrap there and the type is modelled by \<open>int\<close>.
\<close>

type_synonym Level = int

text \<open>
  The constants come from one \<^verbatim>\<open>const\<close> block: the first is
  \<^verbatim>\<open>Level(iota)\<close> and every following line repeats that expression with
  \<^verbatim>\<open>iota\<close> being the index of the line in the block.
\<close>

definition Level_iota :: "nat \<Rightarrow> Level" where
  "Level_iota iota = int iota"

definition LevelUndefined :: Level where
  "LevelUndefined = Level_iota 0"

definition LevelFatal :: Level where
  "LevelFatal = Level_iota 1"

definition LevelCritical :: Level where
  "LevelCritical = Level_iota 2"

definition LevelError :: Level where
  "LevelError = Level_iota 3"

definition LevelWarning :: Level where
  "LevelWarning = Level_iota 4"

definition LevelInfo :: Level where
  "LevelInfo = Level_iota 5"

definition LevelDebug :: Level where
  "LevelDebug = Level_iota 6"

definition LevelTrace :: Level where
  "LevelTrace = Level_iota 7"

text \<open>
  \<^verbatim>\<open>func (logLevel Level) String() string\<close>: a \<^verbatim>\<open>switch\<close> whose cases are
  tried in the order of the source, and \<^verbatim>\<open>"unknown"\<close> after it.
\<close>

definition String :: "Level \<Rightarrow> string" where
  "String logLevel =
     (if logLevel = LevelUndefined then ''undefined''
      else if logLevel = LevelTrace then ''trace''
      else if logLevel = LevelDebug then ''debug''
      else if logLevel = LevelInfo then ''info''
      else if logLevel = LevelWarning then ''warning''
      else if logLevel = LevelError then ''error''
      else if logLevel = LevelCritical then ''critical''
      else if logLevel = LevelFatal then ''fatal''
      else ''unknown'')"

subsection \<open>The library functions \<^verbatim>\<open>ParseLogLevel\<close> calls\<close>

text \<open>
  A Go string is a sequence of bytes, which is what \<open>string\<close> is here.

  \<^verbatim>\<open>strings.ToLower\<close> first scans for a byte \<^verbatim>\<open>>= utf8.RuneSelf\<close> (0x80).
  When there is none it adds \<^verbatim>\<open>'a' - 'A'\<close> to every byte in \<^verbatim>\<open>'A'..'Z'\<close>
  and keeps the others. Otherwise it returns \<^verbatim>\<open>Map(unicode.ToLower, s)\<close>,
  which depends on the Unicode tables of the Go distribution: that branch is the
  parameter \<open>unicodeLower\<close> of the model, so that every theorem below holds
  whatever the tables are.
\<close>

definition RuneSelf :: nat where
  "RuneSelf = 128"

definition isASCII :: "string \<Rightarrow> bool" where
  "isASCII s = list_all (\<lambda>c. (of_char c :: nat) < RuneSelf) s"

definition lowerByte :: "char \<Rightarrow> char" where
  "lowerByte c =
     (if (of_char (CHR ''A'') :: nat) \<le> of_char c \<and> (of_char c :: nat) \<le> of_char (CHR ''Z'')
      then char_of ((of_char c :: nat) + (of_char (CHR ''a'') - of_char (CHR ''A'')))
      else c)"

definition ToLower :: "(string \<Rightarrow> string) \<Rightarrow> string \<Rightarrow> string" where
  "ToLower unicodeLower s = (if isASCII s then map lowerByte s else unicodeLower s)"

text \<open>
  \<^verbatim>\<open>strings.Join(elems, sep)\<close>: the empty string for no element, the element
  itself for one, and otherwise the first element followed by \<^verbatim>\<open>sep\<close> and an
  element for each of the others.
\<close>

fun Join :: "string list \<Rightarrow> string \<Rightarrow> string" where
  "Join [] sep = []"
| "Join [x] sep = x"
| "Join (x # y # ys) sep = x @ sep @ Join (y # ys) sep"

text \<open>
  A Go \<^verbatim>\<open>error\<close> is \<^verbatim>\<open>nil\<close> or a value with a message: \<open>None\<close> or
  \<open>Some\<close> of the text that its \<^verbatim>\<open>Error()\<close> method returns.
\<close>

type_synonym error = "string option"

text \<open>
  \<^verbatim>\<open>fmt.Errorf("unknown logging level '%s', known values are: %s", in, known)\<close>:
  the verb \<^verbatim>\<open>%s\<close> writes the bytes of a string operand as they are.
\<close>

definition Errorf_unknown :: "string \<Rightarrow> string \<Rightarrow> error" where
  "Errorf_unknown inp known =
     Some (''unknown logging level '' @ [CHR 0x27] @ inp @ [CHR 0x27]
           @ '', known values are: '' @ known)"

subsection \<open>\<^verbatim>\<open>ParseLogLevel\<close>\<close>

text \<open>
  The loop \<^verbatim>\<open>for logLevel := LevelFatal; logLevel <= LevelDebug; logLevel++\<close>,
  which appends \<^verbatim>\<open>logLevel.String()\<close> to \<^verbatim>\<open>allowedValues\<close>.
\<close>

function allowedValuesLoop :: "Level \<Rightarrow> string list \<Rightarrow> string list" where
  "allowedValuesLoop logLevel allowedValues =
     (if logLevel \<le> LevelDebug
      then allowedValuesLoop (logLevel + 1) (allowedValues @ [String logLevel])
      else allowedValues)"
  by pat_completeness auto
termination
  by (relation "measure (\<lambda>(logLevel, allowedValues). nat (LevelDebug + 1 - logLevel))") auto

declare allowedValuesLoop.simps [simp del]

definition ParseLogLevel :: "(string \<Rightarrow> string) \<Rightarrow> string \<Rightarrow> Level \<times> error" where
  "ParseLogLevel unicodeLower inp =
     (let low = ToLower unicodeLower inp in
      if low = ''t'' \<or> low = ''trace'' then (LevelDebug, None)
      else if low = ''d'' \<or> low = ''debug'' then (LevelDebug, None)
      else if low = ''i'' \<or> low = ''info'' then (LevelInfo, None)
      else if low = ''w'' \<or> low = ''warn'' \<or> low = ''warning'' then (LevelWarning, None)
      else if low = ''e'' \<or> low = ''err'' \<or> low = ''error'' then (LevelError, None)
      else if low = ''c'' \<or> low = ''critical'' then (LevelCritical, None)
      else if low = ''f'' \<or> low = ''fatal'' then (LevelFatal, None)
      else (LevelUndefined,
            Errorf_unknown inp (Join (allowedValuesLoop LevelFatal []) '', '')))"

section \<open>Logger derivation (interfaces.go and the design document)\<close>

text \<open>
  interfaces.go declares \<^verbatim>\<open>Level\<close>, \<^verbatim>\<open>Fields\<close> and \<^verbatim>\<open>WithFields\<close> in
  the interface \<^verbatim>\<open>ExtendedLogger\<close>, and the design document declares the
  \<^verbatim>\<open>With*\<close> methods, \<^verbatim>\<open>Fields\<close>, \<^verbatim>\<open>Hooks\<close> and \<^verbatim>\<open>Level\<close> of its
  \<^verbatim>\<open>Logger\<close>. No implementation of them is part of the sources, so the
  definitions of this section follow the specification instead.
\<close>

text \<open>
  Modelled from the spec: the value of a \<^verbatim>\<open>Field\<close>, of which no declaration with
  a body exists; "a tagged union of representations (Integer for any integer-like
  scalar, String for text/byte data, Interface for anything else)". A value of the
  third kind is opaque and stands as a number.
\<close>

datatype FieldValue = Integer int | Text string | Interface nat

text \<open>
  Modelled from the spec: the \<^verbatim>\<open>Field\<close> struct, missing with its users; "a Key
  (string, required ...), plus a tagged union of representations ... and an open list
  of Properties, opaque tool-specific directives".
\<close>

record Field =
  Key :: string
  Value :: FieldValue
  Properties :: "nat list"

text \<open>
  Modelled from the spec: the collection \<^verbatim>\<open>Fields\<close>; "an ordered sequence of
  Field; order of insertion is preserved because later duplicate keys are meant to
  shadow earlier ones when merged".
\<close>

type_synonym Fields = "Field list"

text \<open>
  Modelled from the spec: a \<^verbatim>\<open>Hook\<close>, "created externally, attached to a Logger
  via derivation", which several loggers may share; a logger holds it by reference,
  and the reference is a number.
\<close>

type_synonym Hook = nat

text \<open>
  Modelled from the spec: the state of a \<^verbatim>\<open>Logger\<close>, whose implementation is
  missing; it "carries a current Level, an accumulated Fields set, and an ordered list
  of attached Hooks".
\<close>

record Logger =
  Level :: Level
  Fields :: Fields
  Hooks :: "Hook list"

text \<open>
  Modelled from the spec: the loggers that exist, missing with the implementation. A
  derivation "returns a new Logger value ..., leaving the receiver unmodified", so the
  loggers made so far are kept in a list and a logger is named by its position in it.
\<close>

type_synonym LoggerRef = nat

type_synonym heap = "Logger list"

text \<open>
  Modelled from the spec: the merge of two field collections, missing with the
  implementation; "concatenate then treat later entries with an equal Key as shadowing
  earlier ones for read/serialization purposes".
\<close>

definition mergeFields :: "Fields \<Rightarrow> Fields \<Rightarrow> Fields" where
  "mergeFields receiverFields newFields = receiverFields @ newFields"

text \<open>
  Modelled from the spec: reading one key of a field collection, missing with the
  implementation; "iteration/serialization honors last-write-wins", so the entry read
  for a key is the last one of the sequence that has it.
\<close>

definition lookupField :: "Fields \<Rightarrow> string \<Rightarrow> Field option" where
  "lookupField fs k = find (\<lambda>f. Key f = k) (rev fs)"

text \<open>
  Modelled from the spec: \<^verbatim>\<open>WithFields\<close>, declared in interfaces.go and in the
  design document and implemented nowhere; "pure, non-mutating; returns a new Logger
  whose Fields = receiver.Fields merged with the new fields (last-write-wins on Key
  collision), Level and Hooks unchanged, shared by reference". The result is the
  extended list of loggers and the reference of the new one; there is no result for a
  reference that names no logger.
\<close>

definition WithFields :: "heap \<Rightarrow> LoggerRef \<Rightarrow> Fields \<Rightarrow> (heap \<times> LoggerRef) option" where
  "WithFields h L F =
     (if L < length h
      then Some (h @ [(h ! L)\<lparr>Fields := mergeFields (Fields (h ! L)) F\<rparr>], length h)
      else None)"

section \<open>Properties of the levels\<close>

lemmas Level_defs =
  Level_iota_def LevelUndefined_def LevelFatal_def LevelCritical_def LevelError_def
  LevelWarning_def LevelInfo_def LevelDebug_def LevelTrace_def

text \<open>
  C4: the level constants are numbered 0 to 7 in the order Undefined, Fatal, Critical,
  Error, Warning, Info, Debug, Trace, so they are strictly increasing in that order.
\<close>

theorem Level_encoding_order:
  "LevelUndefined = 0 \<and> LevelFatal = 1 \<and> LevelCritical = 2 \<and> LevelError = 3
   \<and> LevelWarning = 4 \<and> LevelInfo = 5 \<and> LevelDebug = 6 \<and> LevelTrace = 7
   \<and> LevelUndefined < LevelFatal \<and> LevelFatal < LevelCritical
   \<and> LevelCritical < LevelError \<and> LevelError < LevelWarning
   \<and> LevelWarning < LevelInfo \<and> LevelInfo < LevelDebug \<and> LevelDebug < LevelTrace"
  by (simp add: Level_defs)

lemma String_values:
  "String LevelUndefined = ''undefined''" "String LevelTrace = ''trace''"
  "String LevelDebug = ''debug''" "String LevelInfo = ''info''"
  "String LevelWarning = ''warning''" "String LevelError = ''error''"
  "String LevelCritical = ''critical''" "String LevelFatal = ''fatal''"
  by (simp_all add: String_def Level_defs)

text \<open>
  C5: \<^verbatim>\<open>String\<close> returns the canonical token of each of the eight constants and
  \<^verbatim>\<open>"unknown"\<close> for every other level; being a function of the logic it has a
  value for every level.
\<close>

theorem String_total:
  "String LevelUndefined = ''undefined'' \<and> String LevelTrace = ''trace''
   \<and> String LevelDebug = ''debug'' \<and> String LevelInfo = ''info''
   \<and> String LevelWarning = ''warning'' \<and> String LevelError = ''error''
   \<and> String LevelCritical = ''critical'' \<and> String LevelFatal = ''fatal''
   \<and> (logLevel \<notin> {LevelUndefined, LevelTrace, LevelDebug, LevelInfo, LevelWarning,
                     LevelError, LevelCritical, LevelFatal}
        \<longrightarrow> String logLevel = ''unknown'')"
  by (simp add: String_values) (simp add: String_def)

theorem String_total_witness:
  "(8::int) \<notin> {LevelUndefined, LevelTrace, LevelDebug, LevelInfo, LevelWarning,
                LevelError, LevelCritical, LevelFatal}
   \<and> String 8 = ''unknown''
   \<and> (- 1::int) \<notin> {LevelUndefined, LevelTrace, LevelDebug, LevelInfo, LevelWarning,
                    LevelError, LevelCritical, LevelFatal}
   \<and> String (- 1) = ''unknown''"
  using String_total [of 8] String_total [of "- 1"] by (simp add: Level_defs)

section \<open>Lower-casing\<close>

lemma of_char_lowerByte:
  "(of_char (lowerByte c) :: nat) < RuneSelf \<Longrightarrow> (of_char c :: nat) < RuneSelf"
  by (auto simp: lowerByte_def RuneSelf_def split: if_splits)

lemma isASCII_map_lowerByte: "isASCII (map lowerByte s) \<Longrightarrow> isASCII s"
  by (induction s) (auto simp: isASCII_def dest: of_char_lowerByte)

lemma lowerByte_idem: "lowerByte (lowerByte c) = lowerByte c"
  by (auto simp: lowerByte_def)

lemma lowerByte_ascii:
  "(of_char c :: nat) < RuneSelf \<Longrightarrow> (of_char (lowerByte c) :: nat) < RuneSelf"
  by (auto simp: lowerByte_def RuneSelf_def)

lemma isASCII_lowered: "isASCII s \<Longrightarrow> isASCII (map lowerByte s)"
  by (induction s) (auto simp: isASCII_def lowerByte_ascii)

text \<open>
  A string whose bytes, lowered one by one, spell an ASCII token is itself ASCII, and
  \<^verbatim>\<open>strings.ToLower\<close> gives that token: these are the spellings of the token in
  any letter case.
\<close>

lemma ToLower_variant:
  assumes "map lowerByte s = tok" and "isASCII tok"
  shows "ToLower u s = tok"
  using assms isASCII_map_lowerByte [of s] by (simp add: ToLower_def)

lemma ToLower_idem_ASCII: "isASCII s \<Longrightarrow> ToLower u (ToLower u s) = ToLower u s"
  by (simp add: ToLower_def isASCII_lowered lowerByte_idem)

lemma isASCII_tokens:
  "isASCII ''t''" "isASCII ''trace''" "isASCII ''d''" "isASCII ''debug''"
  "isASCII ''i''" "isASCII ''info''" "isASCII ''w''" "isASCII ''warn''"
  "isASCII ''warning''" "isASCII ''e''" "isASCII ''err''" "isASCII ''error''"
  "isASCII ''c''" "isASCII ''critical''" "isASCII ''f''" "isASCII ''fatal''"
  "isASCII ''undefined''"
  by (simp_all add: isASCII_def RuneSelf_def)

lemma lowered_tokens:
  "map lowerByte ''undefined'' = ''undefined''" "map lowerByte ''trace'' = ''trace''"
  "map lowerByte ''debug'' = ''debug''" "map lowerByte ''info'' = ''info''"
  "map lowerByte ''warning'' = ''warning''" "map lowerByte ''error'' = ''error''"
  "map lowerByte ''critical'' = ''critical''" "map lowerByte ''fatal'' = ''fatal''"
  by code_simp+

section \<open>Properties of \<^verbatim>\<open>ParseLogLevel\<close>\<close>

lemma allowedValuesLoop_Fatal:
  "allowedValuesLoop LevelFatal [] =
     [String LevelFatal, String LevelCritical, String LevelError, String LevelWarning,
      String LevelInfo, String LevelDebug]"
  by (simp add: allowedValuesLoop.simps [of 1] allowedValuesLoop.simps [of 2]
      allowedValuesLoop.simps [of 3] allowedValuesLoop.simps [of 4]
      allowedValuesLoop.simps [of 5] allowedValuesLoop.simps [of 6]
      allowedValuesLoop.simps [of 7] Level_defs)

lemma ParseLogLevel_of_lowered:
  "ToLower u s = tok \<Longrightarrow>
   ParseLogLevel u s =
     (if tok = ''t'' \<or> tok = ''trace'' then (LevelDebug, None)
      else if tok = ''d'' \<or> tok = ''debug'' then (LevelDebug, None)
      else if tok = ''i'' \<or> tok = ''info'' then (LevelInfo, None)
      else if tok = ''w'' \<or> tok = ''warn'' \<or> tok = ''warning'' then (LevelWarning, None)
      else if tok = ''e'' \<or> tok = ''err'' \<or> tok = ''error'' then (LevelError, None)
      else if tok = ''c'' \<or> tok = ''critical'' then (LevelCritical, None)
      else if tok = ''f'' \<or> tok = ''fatal'' then (LevelFatal, None)
      else (LevelUndefined,
            Errorf_unknown s (Join (allowedValuesLoop LevelFatal []) '', '')))"
  by (simp add: ParseLogLevel_def Let_def)

lemma ParseLogLevel_variant:
  assumes "map lowerByte s = tok" and "isASCII tok"
  shows "ParseLogLevel u s =
     (if tok = ''t'' \<or> tok = ''trace'' then (LevelDebug, None)
      else if tok = ''d'' \<or> tok = ''debug'' then (LevelDebug, None)
      else if tok = ''i'' \<or> tok = ''info'' then (LevelInfo, None)
      else if tok = ''w'' \<or> tok = ''warn'' \<or> tok = ''warning'' then (LevelWarning, None)
      else if tok = ''e'' \<or> tok = ''err'' \<or> tok = ''error'' then (LevelError, None)
      else if tok = ''c'' \<or> tok = ''critical'' then (LevelCritical, None)
      else if tok = ''f'' \<or> tok = ''fatal'' then (LevelFatal, None)
      else (LevelUndefined,
            Errorf_unknown s (Join (allowedValuesLoop LevelFatal []) '', '')))"
  by (rule ParseLogLevel_of_lowered [OF ToLower_variant [OF assms]])

text \<open>The seven results of the \<^verbatim>\<open>switch\<close> and the one after it.\<close>

lemma ParseLogLevel_outcomes:
  "ParseLogLevel u s \<in>
     {(LevelDebug, None), (LevelInfo, None), (LevelWarning, None), (LevelError, None),
      (LevelCritical, None), (LevelFatal, None),
      (LevelUndefined, Errorf_unknown s (Join (allowedValuesLoop LevelFatal []) '', ''))}"
  by (simp add: ParseLogLevel_def Let_def)

lemma ParseLogLevel_canonical:
  "ParseLogLevel u ''trace'' = (LevelDebug, None)"
  "ParseLogLevel u ''debug'' = (LevelDebug, None)"
  "ParseLogLevel u ''info'' = (LevelInfo, None)"
  "ParseLogLevel u ''warning'' = (LevelWarning, None)"
  "ParseLogLevel u ''error'' = (LevelError, None)"
  "ParseLogLevel u ''critical'' = (LevelCritical, None)"
  "ParseLogLevel u ''fatal'' = (LevelFatal, None)"
proof -
  show "ParseLogLevel u ''trace'' = (LevelDebug, None)"
    by (simp add: ParseLogLevel_variant [OF lowered_tokens(2) isASCII_tokens(2)])
  show "ParseLogLevel u ''debug'' = (LevelDebug, None)"
    by (simp add: ParseLogLevel_variant [OF lowered_tokens(3) isASCII_tokens(4)])
  show "ParseLogLevel u ''info'' = (LevelInfo, None)"
    by (simp add: ParseLogLevel_variant [OF lowered_tokens(4) isASCII_tokens(6)])
  show "ParseLogLevel u ''warning'' = (LevelWarning, None)"
    by (simp add: ParseLogLevel_variant [OF lowered_tokens(5) isASCII_tokens(9)])
  show "ParseLogLevel u ''error'' = (LevelError, None)"
    by (simp add: ParseLogLevel_variant [OF lowered_tokens(6) isASCII_tokens(12)])
  show "ParseLogLevel u ''critical'' = (LevelCritical, None)"
    by (simp add: ParseLogLevel_variant [OF lowered_tokens(7) isASCII_tokens(14)])
  show "ParseLogLevel u ''fatal'' = (LevelFatal, None)"
    by (simp add: ParseLogLevel_variant [OF lowered_tokens(8) isASCII_tokens(16)])
qed

lemma ParseLogLevel_undefined:
  "ParseLogLevel u ''undefined'' =
     (LevelUndefined,
      Errorf_unknown ''undefined'' (Join (allowedValuesLoop LevelFatal []) '', ''))"
  by (simp add: ParseLogLevel_variant [OF lowered_tokens(1) isASCII_tokens(17)])

lemma allowedValues_joined:
  "Join (allowedValuesLoop LevelFatal []) '', '' =
     ''fatal, critical, error, warning, info, debug''"
  by (simp add: allowedValuesLoop_Fatal String_values)

text \<open>
  C1: a string that spells one of the sixteen tokens in any letter case is parsed with a
  nil error; t and trace give LevelDebug, which is not LevelTrace, and every other token
  gives the level it names.
\<close>

theorem ParseLogLevel_known_tokens:
  "(map lowerByte s \<in> {''t'', ''trace''} \<longrightarrow>
      ParseLogLevel u s = (LevelDebug, None) \<and> fst (ParseLogLevel u s) \<noteq> LevelTrace)
   \<and> (map lowerByte s \<in> {''d'', ''debug''} \<longrightarrow> ParseLogLevel u s = (LevelDebug, None))
   \<and> (map lowerByte s \<in> {''i'', ''info''} \<longrightarrow> ParseLogLevel u s = (LevelInfo, None))
   \<and> (map lowerByte s \<in> {''w'', ''warn'', ''warning''} \<longrightarrow>
        ParseLogLevel u s = (LevelWarning, None))
   \<and> (map lowerByte s \<in> {''e'', ''err'', ''error''} \<longrightarrow>
        ParseLogLevel u s = (LevelError, None))
   \<and> (map lowerByte s \<in> {''c'', ''critical''} \<longrightarrow> ParseLogLevel u s = (LevelCritical, None))
   \<and> (map lowerByte s \<in> {''f'', ''fatal''} \<longrightarrow> ParseLogLevel u s = (LevelFatal, None))"
proof -
  have neq: "LevelDebug \<noteq> LevelTrace"
    by (simp add: Level_defs)
  have t: "map lowerByte s \<in> {''t'', ''trace''} \<longrightarrow>
      ParseLogLevel u s = (LevelDebug, None) \<and> fst (ParseLogLevel u s) \<noteq> LevelTrace"
    using neq by (auto simp: ParseLogLevel_variant isASCII_tokens)
  have d: "map lowerByte s \<in> {''d'', ''debug''} \<longrightarrow> ParseLogLevel u s = (LevelDebug, None)"
    by (auto simp: ParseLogLevel_variant isASCII_tokens)
  have i: "map lowerByte s \<in> {''i'', ''info''} \<longrightarrow> ParseLogLevel u s = (LevelInfo, None)"
    by (auto simp: ParseLogLevel_variant isASCII_tokens)
  have w: "map lowerByte s \<in> {''w'', ''warn'', ''warning''} \<longrightarrow>
      ParseLogLevel u s = (LevelWarning, None)"
    by (auto simp: ParseLogLevel_variant isASCII_tokens)
  have e: "map lowerByte s \<in> {''e'', ''err'', ''error''} \<longrightarrow>
      ParseLogLevel u s = (LevelError, None)"
    by (auto simp: ParseLogLevel_variant isASCII_tokens)
  have c: "map lowerByte s \<in> {''c'', ''critical''} \<longrightarrow>
      ParseLogLevel u s = (LevelCritical, None)"
    by (auto simp: ParseLogLevel_variant isASCII_tokens)
  have f: "map lowerByte s \<in> {''f'', ''fatal''} \<longrightarrow> ParseLogLevel u s = (LevelFatal, None)"
    by (auto simp: ParseLogLevel_variant isASCII_tokens)
  from t d i w e c f show ?thesis
    by blast
qed

theorem ParseLogLevel_known_tokens_witness:
  "map lowerByte ''T'' \<in> {''t'', ''trace''} \<and> ParseLogLevel id ''T'' = (LevelDebug, None)
   \<and> map lowerByte ''WaRn'' \<in> {''w'', ''warn'', ''warning''}
   \<and> ParseLogLevel id ''WaRn'' = (LevelWarning, None)"
proof -
  have a: "map lowerByte ''T'' = ''t''"
    by code_simp
  have b: "map lowerByte ''WaRn'' = ''warn''"
    by code_simp
  have "ParseLogLevel id ''T'' = (LevelDebug, None)"
    using ParseLogLevel_known_tokens [of "''T''" id] unfolding a by simp
  moreover have "ParseLogLevel id ''WaRn'' = (LevelWarning, None)"
    using ParseLogLevel_known_tokens [of "''WaRn''" id] unfolding b by simp
  ultimately show ?thesis
    unfolding a b by simp
qed

text \<open>
  The round trip of C2 as the claim states it does not hold for two of its eight tokens:
  \<^verbatim>\<open>"undefined"\<close> is rejected with an error, and \<^verbatim>\<open>"trace"\<close> comes back as
  \<^verbatim>\<open>"debug"\<close>.
\<close>

theorem ParseLogLevel_roundtrip_fails:
  "ParseLogLevel id ''undefined'' =
     (LevelUndefined,
      Some (''unknown logging level '' @ [CHR 0x27] @ ''undefined'' @ [CHR 0x27]
            @ '', known values are: fatal, critical, error, warning, info, debug''))
   \<and> String (fst (ParseLogLevel id ''trace'')) = ''debug''"
  by (simp add: ParseLogLevel_undefined ParseLogLevel_canonical String_values
      Errorf_unknown_def allowedValues_joined)

text \<open>
  C2, amended: for each of the six tokens debug, info, warning, error, critical and fatal,
  a string that spells the token in any letter case is parsed with a nil error to a level
  whose \<^verbatim>\<open>String\<close> is that token; a spelling of undefined is rejected, with
  LevelUndefined and an error.
\<close>

theorem ParseLogLevel_String_roundtrip:
  "(tok \<in> {''debug'', ''info'', ''warning'', ''error'', ''critical'', ''fatal''}
      \<and> map lowerByte s = tok
      \<longrightarrow> snd (ParseLogLevel u s) = None \<and> String (fst (ParseLogLevel u s)) = tok)
   \<and> (map lowerByte s = ''undefined''
      \<longrightarrow> fst (ParseLogLevel u s) = LevelUndefined \<and> snd (ParseLogLevel u s) \<noteq> None)"
proof -
  have ok: "snd (ParseLogLevel u s) = None \<and> String (fst (ParseLogLevel u s)) = tok"
    if "tok \<in> {''debug'', ''info'', ''warning'', ''error'', ''critical'', ''fatal''}"
      and "map lowerByte s = tok"
    using that by (auto simp: ParseLogLevel_variant isASCII_tokens String_values)
  have und: "fst (ParseLogLevel u s) = LevelUndefined \<and> snd (ParseLogLevel u s) \<noteq> None"
    if "map lowerByte s = ''undefined''"
    using that by (simp add: ParseLogLevel_variant isASCII_tokens Errorf_unknown_def)
  show ?thesis
  proof (intro conjI impI)
    assume h: "tok \<in> {''debug'', ''info'', ''warning'', ''error'', ''critical'', ''fatal''}
      \<and> map lowerByte s = tok"
    show "snd (ParseLogLevel u s) = None"
      using ok [OF conjunct1 [OF h] conjunct2 [OF h]] by (rule conjunct1)
    show "String (fst (ParseLogLevel u s)) = tok"
      using ok [OF conjunct1 [OF h] conjunct2 [OF h]] by (rule conjunct2)
  next
    assume h: "map lowerByte s = ''undefined''"
    show "fst (ParseLogLevel u s) = LevelUndefined"
      using und [OF h] by (rule conjunct1)
    show "snd (ParseLogLevel u s) \<noteq> None"
      using und [OF h] by (rule conjunct2)
  qed
qed

theorem ParseLogLevel_String_roundtrip_witness:
  "''warning'' \<in> {''debug'', ''info'', ''warning'', ''error'', ''critical'', ''fatal''}
   \<and> map lowerByte ''WARNing'' = ''warning''
   \<and> snd (ParseLogLevel id ''WARNing'') = None
   \<and> String (fst (ParseLogLevel id ''WARNing'')) = ''warning''
   \<and> map lowerByte ''Undefined'' = ''undefined''
   \<and> fst (ParseLogLevel id ''Undefined'') = LevelUndefined
   \<and> snd (ParseLogLevel id ''Undefined'') \<noteq> None"
proof -
  have a: "map lowerByte ''WARNing'' = ''warning''"
    by code_simp
  have b: "map lowerByte ''Undefined'' = ''undefined''"
    by code_simp
  show ?thesis
    using a b ParseLogLevel_String_roundtrip [of "''warning''" "''WARNing''" id]
      ParseLogLevel_String_roundtrip [of "''undefined''" "''Undefined''" id]
    by simp
qed

text \<open>
  C3: when the lower-cased input is none of the sixteen tokens, the result is
  LevelUndefined with an error whose text ends in the list fatal, critical, error, warning,
  info, debug. That list is the \<^verbatim>\<open>String\<close> of the levels from Fatal to Debug in this
  order, as the loop collects them; the names of Trace and Undefined are not in it, and
  every name in it is accepted by \<^verbatim>\<open>ParseLogLevel\<close>.
\<close>

theorem ParseLogLevel_unknown_error:
  "(ToLower u s \<notin> {''t'', ''trace'', ''d'', ''debug'', ''i'', ''info'', ''w'', ''warn'',
       ''warning'', ''e'', ''err'', ''error'', ''c'', ''critical'', ''f'', ''fatal''}
    \<longrightarrow> ParseLogLevel u s =
         (LevelUndefined,
          Some (''unknown logging level '' @ [CHR 0x27] @ s @ [CHR 0x27]
                @ '', known values are: ''
                @ ''fatal, critical, error, warning, info, debug'')))
   \<and> ''fatal, critical, error, warning, info, debug'' =
       Join (map String [LevelFatal, LevelCritical, LevelError, LevelWarning,
                         LevelInfo, LevelDebug]) '', ''
   \<and> allowedValuesLoop LevelFatal [] =
       map String [LevelFatal, LevelCritical, LevelError, LevelWarning, LevelInfo, LevelDebug]
   \<and> String LevelTrace \<notin> set (allowedValuesLoop LevelFatal [])
   \<and> String LevelUndefined \<notin> set (allowedValuesLoop LevelFatal [])
   \<and> (\<forall>v \<in> set (allowedValuesLoop LevelFatal []). snd (ParseLogLevel u v) = None)"
proof -
  have loop: "allowedValuesLoop LevelFatal [] =
      map String [LevelFatal, LevelCritical, LevelError, LevelWarning, LevelInfo, LevelDebug]"
    by (simp add: allowedValuesLoop_Fatal)
  have res: "ToLower u s \<notin> {''t'', ''trace'', ''d'', ''debug'', ''i'', ''info'', ''w'', ''warn'',
       ''warning'', ''e'', ''err'', ''error'', ''c'', ''critical'', ''f'', ''fatal''}
    \<longrightarrow> ParseLogLevel u s =
         (LevelUndefined,
          Some (''unknown logging level '' @ [CHR 0x27] @ s @ [CHR 0x27]
                @ '', known values are: ''
                @ ''fatal, critical, error, warning, info, debug''))"
    unfolding ParseLogLevel_def Let_def allowedValues_joined Errorf_unknown_def by simp
  have names: "''fatal, critical, error, warning, info, debug'' =
           Join (map String [LevelFatal, LevelCritical, LevelError, LevelWarning,
                             LevelInfo, LevelDebug]) '', ''"
    by (simp add: String_values)
  have notr: "String LevelTrace \<notin> set (allowedValuesLoop LevelFatal [])"
    by (simp add: allowedValuesLoop_Fatal String_values)
  have noun: "String LevelUndefined \<notin> set (allowedValuesLoop LevelFatal [])"
    by (simp add: allowedValuesLoop_Fatal String_values)
  have valid: "\<forall>v \<in> set (allowedValuesLoop LevelFatal []). snd (ParseLogLevel u v) = None"
    by (simp add: allowedValuesLoop_Fatal String_values ParseLogLevel_canonical)
  from loop res names notr noun valid show ?thesis
    by blast
qed

theorem ParseLogLevel_unknown_error_witness:
  "ToLower id ''Verbose'' \<notin> {''t'', ''trace'', ''d'', ''debug'', ''i'', ''info'', ''w'', ''warn'',
       ''warning'', ''e'', ''err'', ''error'', ''c'', ''critical'', ''f'', ''fatal''}
   \<and> ParseLogLevel id ''Verbose'' =
         (LevelUndefined,
          Some (''unknown logging level '' @ [CHR 0x27] @ ''Verbose'' @ [CHR 0x27]
                @ '', known values are: fatal, critical, error, warning, info, debug''))
   \<and> ''fatal'' \<in> set (allowedValuesLoop LevelFatal [])
   \<and> snd (ParseLogLevel id ''fatal'') = None"
proof -
  have a: "ToLower id ''Verbose'' = ''verbose''"
    by code_simp
  have b: "''fatal'' \<in> set (allowedValuesLoop LevelFatal [])"
    by (simp add: allowedValuesLoop_Fatal String_values)
  show ?thesis
    using b ParseLogLevel_unknown_error [of id "''Verbose''"] unfolding a by simp
qed

text \<open>
  C6: the level and the success or failure of \<^verbatim>\<open>ParseLogLevel\<close> depend on the
  input through its lower-cased form only, so two inputs with the same lower-cased form
  have the same outcome; and the outcome for an input is the outcome for its lower-cased
  form. For an input with a byte from 0x80 on, that form comes from the Unicode tables of
  the Go library, and the second statement needs of them that lower-casing that form
  again leaves it as it is; for an ASCII input nothing is needed.
\<close>

theorem ParseLogLevel_case_insensitive:
  "((\<not> isASCII s \<longrightarrow> ToLower u (u s) = u s) \<longrightarrow>
      fst (ParseLogLevel u s) = fst (ParseLogLevel u (ToLower u s))
      \<and> (snd (ParseLogLevel u s) = None \<longleftrightarrow> snd (ParseLogLevel u (ToLower u s)) = None))
   \<and> (ToLower u t = ToLower u s \<longrightarrow>
        fst (ParseLogLevel u t) = fst (ParseLogLevel u s)
        \<and> (snd (ParseLogLevel u t) = None \<longleftrightarrow> snd (ParseLogLevel u s) = None))"
proof -
  have same: "fst (ParseLogLevel u a) = fst (ParseLogLevel u b)
      \<and> (snd (ParseLogLevel u a) = None \<longleftrightarrow> snd (ParseLogLevel u b) = None)"
    if "ToLower u a = ToLower u b" for a b
    using that by (simp add: ParseLogLevel_def Let_def Errorf_unknown_def)
  have idem: "ToLower u (ToLower u s) = ToLower u s"
    if "\<not> isASCII s \<longrightarrow> ToLower u (u s) = u s"
  proof (cases "isASCII s")
    case True
    then show ?thesis by (rule ToLower_idem_ASCII)
  next
    case False
    with that show ?thesis by (simp add: ToLower_def)
  qed
  show ?thesis
  proof (rule conjI; rule impI)
    assume h: "\<not> isASCII s \<longrightarrow> ToLower u (u s) = u s"
    from same [OF idem [OF h, symmetric]]
    show "fst (ParseLogLevel u s) = fst (ParseLogLevel u (ToLower u s))
      \<and> (snd (ParseLogLevel u s) = None \<longleftrightarrow> snd (ParseLogLevel u (ToLower u s)) = None)" .
  next
    assume "ToLower u t = ToLower u s"
    then show "fst (ParseLogLevel u t) = fst (ParseLogLevel u s)
        \<and> (snd (ParseLogLevel u t) = None \<longleftrightarrow> snd (ParseLogLevel u s) = None)"
      by (rule same)
  qed
qed

theorem ParseLogLevel_case_insensitive_witness:
  "isASCII ''ErRoR'' \<and> ToLower id ''ErRoR'' = ''error''
   \<and> ToLower id ''ERROR'' = ToLower id ''ErRoR''
   \<and> fst (ParseLogLevel id ''ErRoR'') = fst (ParseLogLevel id ''error'')
   \<and> fst (ParseLogLevel id ''ERROR'') = fst (ParseLogLevel id ''ErRoR'')
   \<and> fst (ParseLogLevel id ''ErRoR'') = LevelError
   \<and> snd (ParseLogLevel id ''ErRoR'') = None"
proof -
  have a: "isASCII ''ErRoR''"
    by code_simp
  have b: "ToLower id ''ErRoR'' = ''error''"
    by code_simp
  have c: "ToLower id ''ERROR'' = ''error''"
    by code_simp
  have d: "ParseLogLevel id ''error'' = (LevelError, None)"
    by (rule ParseLogLevel_canonical)
  show ?thesis
    using a d ParseLogLevel_case_insensitive [of "''ErRoR''" id "''ERROR''"]
    unfolding b c by simp
qed

text \<open>
  C7: for every input the error is non-nil exactly when the level is LevelUndefined; a
  success has a level from Fatal to Debug, so the result is never LevelTrace with a nil
  error and never LevelUndefined with a nil error.
\<close>

theorem ParseLogLevel_error_iff_undefined:
  "(snd (ParseLogLevel u s) \<noteq> None \<longleftrightarrow> fst (ParseLogLevel u s) = LevelUndefined)
   \<and> (snd (ParseLogLevel u s) = None \<longrightarrow>
        LevelFatal \<le> fst (ParseLogLevel u s) \<and> fst (ParseLogLevel u s) \<le> LevelDebug)
   \<and> ParseLogLevel u s \<noteq> (LevelTrace, None)
   \<and> ParseLogLevel u s \<noteq> (LevelUndefined, None)"
  using ParseLogLevel_outcomes [of u s]
  by (auto simp: Errorf_unknown_def Level_defs)

theorem ParseLogLevel_error_iff_undefined_witness:
  "snd (ParseLogLevel id ''Info'') = None \<and> fst (ParseLogLevel id ''Info'') = LevelInfo
   \<and> LevelFatal \<le> LevelInfo \<and> LevelInfo \<le> LevelDebug
   \<and> snd (ParseLogLevel id ''verbose'') \<noteq> None
   \<and> fst (ParseLogLevel id ''verbose'') = LevelUndefined"
proof -
  have a: "ParseLogLevel id ''Info'' = (LevelInfo, None)"
    by code_simp
  have b: "snd (ParseLogLevel id ''verbose'') \<noteq> None"
    by code_simp
  show ?thesis
    using a b ParseLogLevel_error_iff_undefined [of id "''Info''"]
      ParseLogLevel_error_iff_undefined [of id "''verbose''"]
    by simp
qed

text \<open>
  C8: for every level from Fatal to Debug, parsing its \<^verbatim>\<open>String\<close> succeeds and
  gives the level back. The same fails for LevelUndefined, whose name is rejected, and
  for LevelTrace, whose name is parsed to LevelDebug.
\<close>

theorem ParseLogLevel_String_inverse:
  "(LevelFatal \<le> l \<and> l \<le> LevelDebug \<longrightarrow> ParseLogLevel u (String l) = (l, None))
   \<and> fst (ParseLogLevel u (String LevelUndefined)) = LevelUndefined
   \<and> snd (ParseLogLevel u (String LevelUndefined)) \<noteq> None
   \<and> ParseLogLevel u (String LevelTrace) = (LevelDebug, None)
   \<and> LevelDebug \<noteq> LevelTrace"
proof -
  have six: "l \<in> {LevelFatal, LevelCritical, LevelError, LevelWarning, LevelInfo, LevelDebug}"
    if "LevelFatal \<le> l \<and> l \<le> LevelDebug"
    using that by (auto simp: Level_defs)
  have inv: "LevelFatal \<le> l \<and> l \<le> LevelDebug \<longrightarrow> ParseLogLevel u (String l) = (l, None)"
    using six by (auto simp: String_values ParseLogLevel_canonical)
  have und: "fst (ParseLogLevel u (String LevelUndefined)) = LevelUndefined
      \<and> snd (ParseLogLevel u (String LevelUndefined)) \<noteq> None"
    by (simp add: String_values ParseLogLevel_undefined Errorf_unknown_def)
  have tr: "ParseLogLevel u (String LevelTrace) = (LevelDebug, None)"
    by (simp add: String_values ParseLogLevel_canonical)
  have "LevelDebug \<noteq> LevelTrace"
    by (simp add: Level_defs)
  with inv und tr show ?thesis
    by blast
qed

theorem ParseLogLevel_String_inverse_witness:
  "LevelFatal \<le> LevelWarning \<and> LevelWarning \<le> LevelDebug
   \<and> ParseLogLevel id (String LevelWarning) = (LevelWarning, None)"
  using ParseLogLevel_String_inverse [of LevelWarning id] by (simp add: Level_defs)

text \<open>
  C10: when \<^verbatim>\<open>ParseLogLevel\<close> returns an error, its text is the format string with
  the input as it was given, not lower-cased, between the two quotes, so the input occurs
  in the text.
\<close>

theorem ParseLogLevel_error_quotes_input:
  "snd (ParseLogLevel u s) \<noteq> None \<longrightarrow>
     (\<exists>msg. ParseLogLevel u s = (LevelUndefined, Some msg)
        \<and> msg = ''unknown logging level '' @ [CHR 0x27] @ s @ [CHR 0x27]
                 @ '', known values are: '' @ Join (allowedValuesLoop LevelFatal []) '', ''
        \<and> sublist s msg)"
proof
  assume "snd (ParseLogLevel u s) \<noteq> None"
  with ParseLogLevel_outcomes [of u s]
  have "ParseLogLevel u s =
      (LevelUndefined, Errorf_unknown s (Join (allowedValuesLoop LevelFatal []) '', ''))"
    by auto
  moreover have "sublist s (''unknown logging level '' @ [CHR 0x27] @ s @ [CHR 0x27]
                 @ '', known values are: '' @ Join (allowedValuesLoop LevelFatal []) '', '')"
    unfolding sublist_def by (metis append.assoc)
  ultimately show "\<exists>msg. ParseLogLevel u s = (LevelUndefined, Some msg)
        \<and> msg = ''unknown logging level '' @ [CHR 0x27] @ s @ [CHR 0x27]
                 @ '', known values are: '' @ Join (allowedValuesLoop LevelFatal []) '', ''
        \<and> sublist s msg"
    by (simp add: Errorf_unknown_def)
qed

theorem ParseLogLevel_error_quotes_input_witness:
  "snd (ParseLogLevel id ''VerBose'') \<noteq> None
   \<and> ParseLogLevel id ''VerBose'' =
       (LevelUndefined,
        Some (''unknown logging level '' @ [CHR 0x27] @ ''VerBose'' @ [CHR 0x27]
              @ '', known values are: fatal, critical, error, warning, info, debug''))
   \<and> sublist ''VerBose''
       (''unknown logging level '' @ [CHR 0x27] @ ''VerBose'' @ [CHR 0x27]
        @ '', known values are: fatal, critical, error, warning, info, debug'')"
proof -
  have a: "snd (ParseLogLevel id ''VerBose'') \<noteq> None"
    by code_simp
  show ?thesis
    using a ParseLogLevel_error_quotes_input [of id "''VerBose''"]
    by (auto simp: allowedValues_joined)
qed

section \<open>Properties of the derivation\<close>

lemma find_append_cases:
  "find P (xs @ ys) = (case find P xs of None \<Rightarrow> find P ys | Some x \<Rightarrow> Some x)"
  by (induction xs) simp_all

lemma find_SomeD: "find P xs = Some x \<Longrightarrow> P x \<and> x \<in> set xs"
  by (induction xs) (auto split: if_splits)

lemma lookupField_merge:
  "lookupField (mergeFields old new) k =
     (case lookupField new k of None \<Rightarrow> lookupField old k | Some f \<Rightarrow> Some f)"
  by (simp add: lookupField_def mergeFields_def find_append_cases split: option.split)

lemma lookupField_present:
  assumes "f \<in> set fs"
  shows "\<exists>g \<in> set fs. lookupField fs (Key f) = Some g \<and> Key g = Key f"
proof (cases "lookupField fs (Key f)")
  case None
  with assms show ?thesis
    by (auto simp: lookupField_def find_None_iff)
next
  case (Some g)
  then have "Key g = Key f \<and> g \<in> set (rev fs)"
    unfolding lookupField_def by (rule find_SomeD)
  with Some show ?thesis
    by auto
qed

text \<open>
  C9: for a logger L and fields F, \<^verbatim>\<open>WithFields\<close> returns a new logger, other than
  L. Its fields are those of L followed by F, so every key of F is a key of them, and
  reading a key of F gives the last entry of F for it while reading any other key gives
  what L has. Its level and hooks are those of L. L and every other logger made before
  are what they were, so the fields, level and hooks read from L are the same as before.
\<close>

theorem WithFields_derivation:
  assumes "L < length h"
  shows "\<exists>h' L'. WithFields h L F = Some (h', L')
     \<and> L' \<noteq> L \<and> L' < length h'
     \<and> Fields (h' ! L') = mergeFields (Fields (h ! L)) F
     \<and> Key ` set F \<subseteq> Key ` set (Fields (h' ! L'))
     \<and> (\<forall>f \<in> set F. \<exists>g \<in> set F. Key g = Key f
            \<and> lookupField (Fields (h' ! L')) (Key f) = Some g
            \<and> lookupField F (Key f) = Some g)
     \<and> (\<forall>k. k \<notin> Key ` set F \<longrightarrow>
              lookupField (Fields (h' ! L')) k = lookupField (Fields (h ! L)) k)
     \<and> Level (h' ! L') = Level (h ! L) \<and> Hooks (h' ! L') = Hooks (h ! L)
     \<and> h' ! L = h ! L
     \<and> (\<forall>r < length h. h' ! r = h ! r)"
proof -
  let ?n = "(h ! L)\<lparr>Fields := mergeFields (Fields (h ! L)) F\<rparr>"
  let ?h' = "h @ [?n]"
  have res: "WithFields h L F = Some (?h', length h)"
    using assms by (simp add: WithFields_def)
  have old: "\<forall>r < length h. ?h' ! r = h ! r"
    by (simp add: nth_append)
  have keys: "Key ` set F \<subseteq> Key ` set (Fields ?n)"
    by (auto simp: mergeFields_def)
  have lww: "\<forall>f \<in> set F. \<exists>g \<in> set F. Key g = Key f
            \<and> lookupField (Fields ?n) (Key f) = Some g
            \<and> lookupField F (Key f) = Some g"
  proof
    fix f assume "f \<in> set F"
    from lookupField_present [OF this]
    obtain g where g: "g \<in> set F" "lookupField F (Key f) = Some g" "Key g = Key f"
      by blast
    then have "lookupField (Fields ?n) (Key f) = Some g"
      by (simp add: lookupField_merge)
    with g show "\<exists>g \<in> set F. Key g = Key f
            \<and> lookupField (Fields ?n) (Key f) = Some g
            \<and> lookupField F (Key f) = Some g"
      by blast
  qed
  have keep: "\<forall>k. k \<notin> Key ` set F \<longrightarrow> lookupField (Fields ?n) k = lookupField (Fields (h ! L)) k"
  proof (intro allI impI)
    fix k assume "k \<notin> Key ` set F"
    then have "lookupField F k = None"
      by (auto simp: lookupField_def find_None_iff)
    then show "lookupField (Fields ?n) k = lookupField (Fields (h ! L)) k"
      by (simp add: lookupField_merge)
  qed
  show ?thesis
    apply (rule exI [of _ ?h'], rule exI [of _ "length h"])
    using assms res keys lww keep old
    by (simp add: nth_append)
qed

theorem WithFields_derivation_witness:
  "(0::nat) < length [\<lparr>Level = LevelInfo,
                       Fields = [\<lparr>Key = ''k'', Value = Text ''a'', Properties = []\<rparr>],
                       Hooks = [0]\<rparr>]
   \<and> WithFields [\<lparr>Level = LevelInfo,
                   Fields = [\<lparr>Key = ''k'', Value = Text ''a'', Properties = []\<rparr>],
                   Hooks = [0]\<rparr>] 0
         [\<lparr>Key = ''k'', Value = Text ''b'', Properties = []\<rparr>,
          \<lparr>Key = ''user_id'', Value = Integer 42, Properties = []\<rparr>]
       = Some ([\<lparr>Level = LevelInfo,
                  Fields = [\<lparr>Key = ''k'', Value = Text ''a'', Properties = []\<rparr>],
                  Hooks = [0]\<rparr>,
                \<lparr>Level = LevelInfo,
                  Fields = [\<lparr>Key = ''k'', Value = Text ''a'', Properties = []\<rparr>,
                            \<lparr>Key = ''k'', Value = Text ''b'', Properties = []\<rparr>,
                            \<lparr>Key = ''user_id'', Value = Integer 42, Properties = []\<rparr>],
                  Hooks = [0]\<rparr>], 1)
   \<and> lookupField [\<lparr>Key = ''k'', Value = Text ''a'', Properties = []\<rparr>,
                   \<lparr>Key = ''k'', Value = Text ''b'', Properties = []\<rparr>,
                   \<lparr>Key = ''user_id'', Value = Integer 42, Properties = []\<rparr>] ''k''
       = Some \<lparr>Key = ''k'', Value = Text ''b'', Properties = []\<rparr>"
  using WithFields_derivation
    [of 0 "[\<lparr>Level = LevelInfo,
              Fields = [\<lparr>Key = ''k'', Value = Text ''a'', Properties = []\<rparr>],
              Hooks = [0]\<rparr>]"
        "[\<lparr>Key = ''k'', Value = Text ''b'', Properties = []\<rparr>,
          \<lparr>Key = ''user_id'', Value = Integer 42, Properties = []\<rparr>]"]
  by (simp add: WithFields_def mergeFields_def lookupField_def)

end
